theory Spec2Isabelle
  imports Complex_Main "HOL-Library.Word"
begin

section \<open>The data-acquisition sketch of 3DPostureSense\<close>

text \<open>
  The sketch \<^verbatim>\<open>src/ESP32/dataacquisitionc.cpp\<close> samples three Hall sensors, smooths each
  voltage with an exponential moving average, converts it to a force, computes the centre
  of pressure (CoP) of the three forces and logs one CSV row at most every 50 ms.

  Numbers. A C \<^verbatim>\<open>float\<close> or \<^verbatim>\<open>double\<close> that holds a finite value is a \<^typ>\<open>real\<close>, and
  \<^verbatim>\<open>+\<close>, \<^verbatim>\<open>*\<close>, \<^verbatim>\<open>/\<close> and \<^verbatim>\<open>sqrt\<close> on finite values are the exact operations: the
  rounding of binary32 and binary64 is not part of this model. The values that are not
  finite numbers are kept apart (\<open>fval\<close> below), since the sketch assigns \<^verbatim>\<open>NAN\<close> and
  divides. \<^verbatim>\<open>unsigned long\<close> is 32 bits wide on the ESP32 and is a \<^typ>\<open>32 word\<close>.
\<close>

subsection \<open>Constants (lines 7-60)\<close>

definition LOG_INTERVAL_MS :: "32 word" where
  "LOG_INTERVAL_MS = 50"

definition P1 :: real where "P1 = - 2.13971683"
definition P2 :: real where "P2 = 18.96856857"
definition P3 :: real where "P3 = - 25.61022289"

definition C_REL_LEFT :: real where "C_REL_LEFT = 1.0"
definition C_REL_RIGHT :: real where "C_REL_RIGHT = 23.0 / 26.0"
definition C_REL_VTC :: real where "C_REL_VTC = 23.0 / 32.4"

definition SYSTEM_FORCE_SCALE :: real where "SYSTEM_FORCE_SCALE = 5.91"

definition EMA_ALPHA :: real where "EMA_ALPHA = 0.15"

definition P_LEFT_XY :: "real list" where "P_LEFT_XY = [0.0, 0.0]"
definition P_RIGHT_XY :: "real list" where "P_RIGHT_XY = [7.00, 0.0]"
definition P_VTC_XY :: "real list" where "P_VTC_XY = [3.5, 22.0]"

definition GEOMETRIC_CENTER_XY :: "real list" where
  "GEOMETRIC_CENTER_XY =
     [(P_LEFT_XY ! 0 + P_RIGHT_XY ! 0 + P_VTC_XY ! 0) / 3.0,
      (P_LEFT_XY ! 1 + P_RIGHT_XY ! 1 + P_VTC_XY ! 1) / 3.0]"

definition MIN_REST_THRESHOLD_N :: real where "MIN_REST_THRESHOLD_N = 3.5"
definition DEAD_ZONE_RADIUS_CM :: real where "DEAD_ZONE_RADIUS_CM = 2.0"

subsection \<open>State, inputs and results of one pass of \<^verbatim>\<open>loop()\<close>\<close>

text \<open>The global variables of the sketch (lines 8, 41, 44, 63).\<close>

record sketch_state =
  lastLogTime :: "32 word"
  filtered_v_left :: real
  filtered_v_right :: real
  filtered_v_vtc :: real
  v_rest_left :: real
  v_rest_right :: real
  v_rest_vtc :: real
  was_in_deadzone :: bool

text \<open>
  What one pass reads from outside: the three \<^verbatim>\<open>analogRead\<close> results, and the three
  readings of \<^verbatim>\<open>millis()\<close> on lines 179, 180 and 181 (the last two are read only when the
  row is printed).
\<close>

record cycle_input =
  adc_left :: int
  adc_right :: int
  adc_vtc :: int
  millis_gate :: "32 word"
  millis_store :: "32 word"
  millis_print :: "32 word"

text \<open>
  A \<^verbatim>\<open>float\<close> that may be not-a-number or infinite: the result of a division, and the
  CoP variables that start as \<^verbatim>\<open>NAN\<close>.
\<close>

datatype fval = Finite real | Infinite | NaN

text \<open>
  The local variables of one pass that the claims speak about. \<open>emitted\<close> is \<open>Some t\<close>
  when the row was printed, \<open>t\<close> being the timestamp in its first column; the other
  columns are the fields of this record.
\<close>

record cycle_result =
  F_left :: real
  F_right :: real
  F_vtc :: real
  F_tot :: real
  isArmRested :: bool
  cop_x :: fval
  cop_y :: fval
  copStateChanged :: bool
  now_in_deadzone :: bool
  emitted :: "32 word option"

subsection \<open>\<^verbatim>\<open>voltageToRawUnit\<close> (lines 106-114)\<close>

definition voltageToRawUnit :: "real \<Rightarrow> real \<Rightarrow> real" where
  "voltageToRawUnit voltage v_rest =
     (if voltage \<le> v_rest then 0.0
      else (let raw_estimate = (P1 * voltage * voltage) + (P2 * voltage) + P3
            in max 0.0 raw_estimate))"

subsection \<open>\<^verbatim>\<open>loop()\<close> (lines 120-191)\<close>

text \<open>Lines 122-124: an ADC count scaled to volts.\<close>

definition adc_volts :: "int \<Rightarrow> real" where
  "adc_volts n = real_of_int n * (3.3 / 4095.0)"

text \<open>Lines 127-129: one update of the exponential moving average of a channel.\<close>

definition ema_update :: "real \<Rightarrow> real \<Rightarrow> real" where
  "ema_update v_raw filtered_v = (EMA_ALPHA * v_raw) + (1.0 - EMA_ALPHA) * filtered_v"

text \<open>
  The quotient of two finite floats. Only a zero divisor leaves the finite numbers:
  \<^verbatim>\<open>0/0\<close> is not-a-number and \<^verbatim>\<open>x/0\<close> is an infinity.
\<close>

definition fdiv :: "real \<Rightarrow> real \<Rightarrow> fval" where
  "fdiv a b = (if b = 0 then (if a = 0 then NaN else Infinite) else Finite (a / b))"

text \<open>
  Lines 162-166: the distance of the CoP from the geometric centre against the radius.
  A comparison with an operand that is infinite or not-a-number is false here: the
  distance is then infinite or not-a-number itself.
\<close>

definition in_deadzone :: "fval \<Rightarrow> fval \<Rightarrow> bool" where
  "in_deadzone cx cy =
     (case (cx, cy) of
        (Finite x, Finite y) \<Rightarrow>
          (let dx = x - GEOMETRIC_CENTER_XY ! 0;
               dy = y - GEOMETRIC_CENTER_XY ! 1;
               dist_from_center = sqrt (dx * dx + dy * dy)
           in dist_from_center \<le> DEAD_ZONE_RADIUS_CM)
      | _ \<Rightarrow> False)"

text \<open>
  Lines 152-176: the CoP, the dead-zone test and the change flag from the three forces and
  the persisted \<^verbatim>\<open>was_in_deadzone\<close>. The result is \<^verbatim>\<open>cop_x\<close>, \<^verbatim>\<open>cop_y\<close>,
  \<^verbatim>\<open>copStateChanged\<close>, \<^verbatim>\<open>now_in_deadzone\<close> and the new \<^verbatim>\<open>was_in_deadzone\<close>.
\<close>

definition cop_and_deadzone ::
  "bool \<Rightarrow> real \<Rightarrow> real \<Rightarrow> real \<Rightarrow> real \<Rightarrow> bool \<Rightarrow> fval \<times> fval \<times> bool \<times> bool \<times> bool" where
  "cop_and_deadzone rested Fl Fr Fv Ft was =
     (if rested then
        (let cx = fdiv (P_LEFT_XY ! 0 * Fl + P_RIGHT_XY ! 0 * Fr + P_VTC_XY ! 0 * Fv) Ft;
             cy = fdiv (P_LEFT_XY ! 1 * Fl + P_RIGHT_XY ! 1 * Fr + P_VTC_XY ! 1 * Fv) Ft;
             now_dz = in_deadzone cx cy;
             changed = (if now_dz \<noteq> was then True else False)
         in (cx, cy, changed, now_dz, now_dz))
      else (NaN, NaN, False, False, False))"

definition loop :: "sketch_state \<Rightarrow> cycle_input \<Rightarrow> sketch_state \<times> cycle_result" where
  "loop s i =
    (let v_left_raw = adc_volts (adc_left i);
         v_right_raw = adc_volts (adc_right i);
         v_vtc_raw = adc_volts (adc_vtc i);
         filtered_left = ema_update v_left_raw (filtered_v_left s);
         filtered_right = ema_update v_right_raw (filtered_v_right s);
         filtered_vtc = ema_update v_vtc_raw (filtered_v_vtc s);
         raw_left = voltageToRawUnit filtered_left (v_rest_left s);
         raw_right = voltageToRawUnit filtered_right (v_rest_right s);
         raw_vtc = voltageToRawUnit filtered_vtc (v_rest_vtc s);
         F_left_corr = raw_left * C_REL_LEFT;
         F_right_corr = raw_right * C_REL_RIGHT;
         F_vtc_corr = raw_vtc * C_REL_VTC;
         Fl = F_left_corr * SYSTEM_FORCE_SCALE;
         Fr = F_right_corr * SYSTEM_FORCE_SCALE;
         Fv = F_vtc_corr * SYSTEM_FORCE_SCALE;
         Ft = Fl + Fr + Fv;
         rested = (Ft > MIN_REST_THRESHOLD_N);
         (cx, cy, changed, now_dz, was) =
           cop_and_deadzone rested Fl Fr Fv Ft (was_in_deadzone s);
         emit = (millis_gate i - lastLogTime s \<ge> LOG_INTERVAL_MS)
     in (s\<lparr> lastLogTime := (if emit then millis_store i else lastLogTime s),
            filtered_v_left := filtered_left,
            filtered_v_right := filtered_right,
            filtered_v_vtc := filtered_vtc,
            was_in_deadzone := was \<rparr>,
         \<lparr> F_left = Fl, F_right = Fr, F_vtc = Fv, F_tot = Ft,
           isArmRested = rested, cop_x = cx, cop_y = cy,
           copStateChanged = changed, now_in_deadzone = now_dz,
           emitted = (if emit then Some (millis_print i) else None) \<rparr>))"

text \<open>
  The Arduino runtime calls \<^verbatim>\<open>loop()\<close> again and again; a run over finitely many passes
  is given by the inputs of the passes, and returns the results in order.
\<close>

fun run_loop :: "sketch_state \<Rightarrow> cycle_input list \<Rightarrow> sketch_state \<times> cycle_result list" where
  "run_loop s [] = (s, [])"
| "run_loop s (i # inputs) =
     (case loop s i of (s', r) \<Rightarrow>
        (case run_loop s' inputs of (s'', rs) \<Rightarrow> (s'', r # rs)))"

text \<open>
  Lines 132, 138 and 143 for one channel, with the channel's coefficient and the scale
  factor as arguments: the calibrated force of a filtered voltage.
\<close>

definition forceFromVoltage :: "real \<Rightarrow> real \<Rightarrow> real \<Rightarrow> real \<Rightarrow> real" where
  "forceFromVoltage filteredVoltage restBaseline relativeSensitivity globalScale =
     (let raw = voltageToRawUnit filteredVoltage restBaseline;
          F_corr = raw * relativeSensitivity
      in F_corr * globalScale)"

subsection \<open>Telemetry rows of a run\<close>

definition emissions :: "cycle_result list \<Rightarrow> nat" where
  "emissions rs = length (filter (\<lambda>r. emitted r \<noteq> None) rs)"




subsection \<open>Concrete states and inputs\<close>

text \<open>
  All three channels at 3.3 V over a baseline of 1 V, and the ADC at full scale (4095
  counts are 3.3 V): the filter stays at 3.3 V and the arm is rested near the centre.
\<close>

definition loaded_state :: "32 word \<Rightarrow> bool \<Rightarrow> sketch_state" where
  "loaded_state t dz =
     \<lparr> lastLogTime = t,
       filtered_v_left = 3.3, filtered_v_right = 3.3, filtered_v_vtc = 3.3,
       v_rest_left = 1, v_rest_right = 1, v_rest_vtc = 1,
       was_in_deadzone = dz \<rparr>"

definition full_scale_input :: "32 word \<Rightarrow> cycle_input" where
  "full_scale_input t =
     \<lparr> adc_left = 4095, adc_right = 4095, adc_vtc = 4095,
       millis_gate = t, millis_store = t, millis_print = t \<rparr>"

text \<open>All three channels at their baseline of 1.65 V, and the ADC reading 0.\<close>

definition idle_state :: "32 word \<Rightarrow> bool \<Rightarrow> sketch_state" where
  "idle_state t dz =
     \<lparr> lastLogTime = t,
       filtered_v_left = 1.65, filtered_v_right = 1.65, filtered_v_vtc = 1.65,
       v_rest_left = 1.65, v_rest_right = 1.65, v_rest_vtc = 1.65,
       was_in_deadzone = dz \<rparr>"

definition idle_input :: "32 word \<Rightarrow> cycle_input" where
  "idle_input t =
     \<lparr> adc_left = 0, adc_right = 0, adc_vtc = 0,
       millis_gate = t, millis_store = t, millis_print = t \<rparr>"



section \<open>Properties\<close>


lemmas const_defs = P1_def P2_def P3_def C_REL_LEFT_def C_REL_RIGHT_def C_REL_VTC_def
  SYSTEM_FORCE_SCALE_def EMA_ALPHA_def P_LEFT_XY_def P_RIGHT_XY_def P_VTC_XY_def
  GEOMETRIC_CENTER_XY_def MIN_REST_THRESHOLD_N_def DEAD_ZONE_RADIUS_CM_def LOG_INTERVAL_MS_def

subsection \<open>What one pass computes, field by field\<close>

lemma loop_filtered:
  "filtered_v_left (fst (loop s i)) = ema_update (adc_volts (adc_left i)) (filtered_v_left s)"
  "filtered_v_right (fst (loop s i)) = ema_update (adc_volts (adc_right i)) (filtered_v_right s)"
  "filtered_v_vtc (fst (loop s i)) = ema_update (adc_volts (adc_vtc i)) (filtered_v_vtc s)"
  by (simp_all add: loop_def Let_def split_def)

lemma loop_rest:
  "v_rest_left (fst (loop s i)) = v_rest_left s"
  "v_rest_right (fst (loop s i)) = v_rest_right s"
  "v_rest_vtc (fst (loop s i)) = v_rest_vtc s"
  by (simp_all add: loop_def Let_def split_def)

lemma loop_forces:
  "F_left (snd (loop s i)) =
     forceFromVoltage (filtered_v_left (fst (loop s i))) (v_rest_left s) C_REL_LEFT SYSTEM_FORCE_SCALE"
  "F_right (snd (loop s i)) =
     forceFromVoltage (filtered_v_right (fst (loop s i))) (v_rest_right s) C_REL_RIGHT SYSTEM_FORCE_SCALE"
  "F_vtc (snd (loop s i)) =
     forceFromVoltage (filtered_v_vtc (fst (loop s i))) (v_rest_vtc s) C_REL_VTC SYSTEM_FORCE_SCALE"
  by (simp_all add: loop_def Let_def split_def forceFromVoltage_def)

lemma loop_total:
  "F_tot (snd (loop s i)) = F_left (snd (loop s i)) + F_right (snd (loop s i)) + F_vtc (snd (loop s i))"
  by (simp add: loop_def Let_def split_def)

lemma loop_rested:
  "isArmRested (snd (loop s i)) = (F_tot (snd (loop s i)) > MIN_REST_THRESHOLD_N)"
  by (simp add: loop_def Let_def split_def)

lemma loop_cop:
  "(cop_x (snd (loop s i)), cop_y (snd (loop s i)), copStateChanged (snd (loop s i)),
    now_in_deadzone (snd (loop s i)), was_in_deadzone (fst (loop s i))) =
   cop_and_deadzone (isArmRested (snd (loop s i))) (F_left (snd (loop s i)))
     (F_right (snd (loop s i))) (F_vtc (snd (loop s i))) (F_tot (snd (loop s i)))
     (was_in_deadzone s)"
  by (simp add: loop_def Let_def split_def)

lemma loop_gate:
  "emitted (snd (loop s i)) =
     (if millis_gate i - lastLogTime s \<ge> LOG_INTERVAL_MS then Some (millis_print i) else None)"
  "lastLogTime (fst (loop s i)) =
     (if millis_gate i - lastLogTime s \<ge> LOG_INTERVAL_MS then millis_store i else lastLogTime s)"
  by (simp_all add: loop_def Let_def split_def)

lemma loop_not_rested:
  assumes "\<not> isArmRested (snd (loop s i))"
  shows "cop_x (snd (loop s i)) = NaN" "cop_y (snd (loop s i)) = NaN"
    "\<not> copStateChanged (snd (loop s i))" "\<not> now_in_deadzone (snd (loop s i))"
    "\<not> was_in_deadzone (fst (loop s i))"
  using loop_cop [of s i] assms by (simp_all add: cop_and_deadzone_def)

lemma loop_when_rested:
  assumes "isArmRested (snd (loop s i))"
  shows "cop_x (snd (loop s i)) =
      fdiv (P_LEFT_XY ! 0 * F_left (snd (loop s i)) + P_RIGHT_XY ! 0 * F_right (snd (loop s i))
            + P_VTC_XY ! 0 * F_vtc (snd (loop s i))) (F_tot (snd (loop s i)))"
    "cop_y (snd (loop s i)) =
      fdiv (P_LEFT_XY ! 1 * F_left (snd (loop s i)) + P_RIGHT_XY ! 1 * F_right (snd (loop s i))
            + P_VTC_XY ! 1 * F_vtc (snd (loop s i))) (F_tot (snd (loop s i)))"
    "now_in_deadzone (snd (loop s i)) = in_deadzone (cop_x (snd (loop s i))) (cop_y (snd (loop s i)))"
    "copStateChanged (snd (loop s i)) = (now_in_deadzone (snd (loop s i)) \<noteq> was_in_deadzone s)"
    "was_in_deadzone (fst (loop s i)) = now_in_deadzone (snd (loop s i))"
  using loop_cop [of s i] assms by (simp_all add: cop_and_deadzone_def Let_def)


subsection \<open>The concrete passes\<close>

lemma sqrt_le_two: "sqrt x \<le> 2 \<longleftrightarrow> x \<le> 4"
proof -
  have "sqrt x \<le> sqrt 4 \<longleftrightarrow> x \<le> 4" by (rule real_sqrt_le_iff)
  then show ?thesis by simp
qed

lemma adc_full_scale: "adc_volts 4095 = 3.3" and adc_zero: "adc_volts 0 = 0"
  by (simp_all add: adc_volts_def)

lemma ema_fixed: "ema_update x x = x"
  by (simp add: ema_update_def algebra_simps)

lemma raw_full_scale: "voltageToRawUnit 3.3 1 = 136845371123 / 10000000000"
  by (simp add: voltageToRawUnit_def Let_def P1_def P2_def P3_def)

lemma loaded_forces:
  "F_left (snd (loop (loaded_state t dz) (full_scale_input t'))) = 136845371123 / 10000000000 * 5.91"
  "F_right (snd (loop (loaded_state t dz) (full_scale_input t'))) = 136845371123 / 10000000000 * (23 / 26) * 5.91"
  "F_vtc (snd (loop (loaded_state t dz) (full_scale_input t'))) = 136845371123 / 10000000000 * (23 / 32.4) * 5.91"
  by (simp_all add: loop_forces loop_filtered forceFromVoltage_def Let_def loaded_state_def
      full_scale_input_def adc_full_scale ema_fixed raw_full_scale C_REL_LEFT_def C_REL_RIGHT_def
      C_REL_VTC_def SYSTEM_FORCE_SCALE_def)

lemma loaded_rested: "isArmRested (snd (loop (loaded_state t dz) (full_scale_input t')))"
  by (simp add: loop_rested loop_total loaded_forces MIN_REST_THRESHOLD_N_def)

lemma loaded_in_deadzone: "now_in_deadzone (snd (loop (loaded_state t dz) (full_scale_input t')))"
  by (simp add: loop_when_rested [OF loaded_rested] loop_total loaded_forces fdiv_def
      in_deadzone_def Let_def P_LEFT_XY_def P_RIGHT_XY_def P_VTC_XY_def GEOMETRIC_CENTER_XY_def
      DEAD_ZONE_RADIUS_CM_def sqrt_le_two)


lemma loaded_state_after:
  "fst (loop (loaded_state t dz) (full_scale_input t')) =
     loaded_state (if t' - t \<ge> 50 then t' else t) True"
proof -
  let ?s = "loaded_state t dz" and ?i = "full_scale_input t'"
  have "was_in_deadzone (fst (loop ?s ?i))"
    using loop_when_rested(5) [OF loaded_rested] loaded_in_deadzone by simp
  moreover have "lastLogTime (fst (loop ?s ?i)) = (if t' - t \<ge> 50 then t' else t)"
    by (simp add: loop_gate loaded_state_def full_scale_input_def LOG_INTERVAL_MS_def)
  moreover have "filtered_v_left (fst (loop ?s ?i)) = 3.3"
    "filtered_v_right (fst (loop ?s ?i)) = 3.3" "filtered_v_vtc (fst (loop ?s ?i)) = 3.3"
    by (simp_all add: loop_filtered loaded_state_def full_scale_input_def adc_full_scale ema_fixed)
  moreover have "v_rest_left (fst (loop ?s ?i)) = 1"
    "v_rest_right (fst (loop ?s ?i)) = 1" "v_rest_vtc (fst (loop ?s ?i)) = 1"
    by (simp_all add: loop_rest loaded_state_def)
  ultimately show ?thesis
    by (simp add: loaded_state_def)
qed

lemma idle_filtered:
  "filtered_v_left (fst (loop (idle_state t dz) (idle_input t'))) = 1.4025"
  "filtered_v_right (fst (loop (idle_state t dz) (idle_input t'))) = 1.4025"
  "filtered_v_vtc (fst (loop (idle_state t dz) (idle_input t'))) = 1.4025"
  by (simp_all add: loop_filtered idle_state_def idle_input_def adc_zero ema_update_def EMA_ALPHA_def)

lemma idle_rest:
  "v_rest_left (idle_state t dz) = 1.65" "v_rest_right (idle_state t dz) = 1.65"
  "v_rest_vtc (idle_state t dz) = 1.65"
  by (simp_all add: idle_state_def)

lemma idle_forces:
  "F_left (snd (loop (idle_state t dz) (idle_input t'))) = 0"
  "F_right (snd (loop (idle_state t dz) (idle_input t'))) = 0"
  "F_vtc (snd (loop (idle_state t dz) (idle_input t'))) = 0"
  "F_tot (snd (loop (idle_state t dz) (idle_input t'))) = 0"
  by (simp_all add: loop_total loop_forces idle_filtered idle_rest forceFromVoltage_def
      voltageToRawUnit_def)

lemma idle_not_rested: "\<not> isArmRested (snd (loop (idle_state t dz) (idle_input t')))"
  by (simp add: loop_rested idle_forces MIN_REST_THRESHOLD_N_def)

subsection \<open>Runs\<close>

lemma run_loop_Cons [simp]:
  "fst (run_loop s (i # inputs)) = fst (run_loop (fst (loop s i)) inputs)"
  "snd (run_loop s (i # inputs)) = snd (loop s i) # snd (run_loop (fst (loop s i)) inputs)"
  by (simp_all add: split_def)

lemma run_loop_Nil [simp]: "fst (run_loop s []) = s" "snd (run_loop s []) = []"
  by simp_all

declare run_loop.simps [simp del]

lemma length_run_loop: "length (snd (run_loop s inputs)) = length inputs"
  by (induction inputs arbitrary: s) simp_all


section \<open>The claims\<close>

lemma forceFromVoltage_above:
  "restBaseline < v \<Longrightarrow>
     forceFromVoltage v restBaseline c g = max 0 (P1 * v\<^sup>2 + P2 * v + P3) * c * g"
  by (simp add: forceFromVoltage_def voltageToRawUnit_def Let_def power2_eq_square mult.assoc)

lemma voltageToRawUnit_nonneg: "0 \<le> voltageToRawUnit voltage v_rest"
  by (simp add: voltageToRawUnit_def Let_def)

lemma forceFromVoltage_nonneg:
  "0 \<le> c \<Longrightarrow> 0 \<le> g \<Longrightarrow> 0 \<le> forceFromVoltage v restBaseline c g"
  by (simp add: forceFromVoltage_def Let_def voltageToRawUnit_nonneg)

lemma loop_forces_nonneg:
  "0 \<le> F_left (snd (loop s i))" "0 \<le> F_right (snd (loop s i))" "0 \<le> F_vtc (snd (loop s i))"
  by (simp_all add: loop_forces forceFromVoltage_nonneg C_REL_LEFT_def C_REL_RIGHT_def
      C_REL_VTC_def SYSTEM_FORCE_SCALE_def)

text \<open>
  Claim C1. After a pass, the force of a channel whose filtered voltage \<open>v\<close> is strictly
  above the channel's rest baseline is \<open>max 0 (P1 v\<^sup>2 + P2 v + P3)\<close> times the channel's
  relative sensitivity times the global scale, the polynomial being taken at the filtered
  voltage itself and not at its distance from the baseline; and the three forces are
  never negative, whatever the state and the inputs.
\<close>

theorem calibrated_force_above_baseline:
  "(v_rest_left s < filtered_v_left (fst (loop s i)) \<longrightarrow>
      F_left (snd (loop s i)) =
        max 0 (P1 * (filtered_v_left (fst (loop s i)))\<^sup>2 + P2 * filtered_v_left (fst (loop s i)) + P3)
          * C_REL_LEFT * SYSTEM_FORCE_SCALE)
   \<and> (v_rest_right s < filtered_v_right (fst (loop s i)) \<longrightarrow>
      F_right (snd (loop s i)) =
        max 0 (P1 * (filtered_v_right (fst (loop s i)))\<^sup>2 + P2 * filtered_v_right (fst (loop s i)) + P3)
          * C_REL_RIGHT * SYSTEM_FORCE_SCALE)
   \<and> (v_rest_vtc s < filtered_v_vtc (fst (loop s i)) \<longrightarrow>
      F_vtc (snd (loop s i)) =
        max 0 (P1 * (filtered_v_vtc (fst (loop s i)))\<^sup>2 + P2 * filtered_v_vtc (fst (loop s i)) + P3)
          * C_REL_VTC * SYSTEM_FORCE_SCALE)
   \<and> 0 \<le> F_left (snd (loop s i)) \<and> 0 \<le> F_right (snd (loop s i)) \<and> 0 \<le> F_vtc (snd (loop s i))"
  by (simp add: loop_forces forceFromVoltage_above loop_forces_nonneg [unfolded loop_forces])

text \<open>The loaded pass: 3.3 V over a baseline of 1 V gives a left force of about 80.88.\<close>

theorem calibrated_force_above_baseline_witness:
  "v_rest_left (loaded_state 0 False)
      < filtered_v_left (fst (loop (loaded_state 0 False) (full_scale_input 60)))
   \<and> F_left (snd (loop (loaded_state 0 False) (full_scale_input 60)))
      = max 0 (P1 * 3.3\<^sup>2 + P2 * 3.3 + P3) * C_REL_LEFT * SYSTEM_FORCE_SCALE
   \<and> F_left (snd (loop (loaded_state 0 False) (full_scale_input 60))) = 80875614333693 / 1000000000000"
  using calibrated_force_above_baseline [of "loaded_state 0 False" "full_scale_input 60"]
  by (simp add: loaded_state_after loaded_forces) (simp add: loaded_state_def)

text \<open>
  Claim C5. A filtered voltage at or below the rest baseline gives the force 0 exactly,
  for every sensitivity coefficient and every scale factor; in a pass this holds for each
  of the three channels.
\<close>

theorem force_zero_at_or_below_baseline:
  "(filteredVoltage \<le> restBaseline \<longrightarrow>
      forceFromVoltage filteredVoltage restBaseline relativeSensitivity globalScale = 0)
   \<and> (filtered_v_left (fst (loop s i)) \<le> v_rest_left s \<longrightarrow> F_left (snd (loop s i)) = 0)
   \<and> (filtered_v_right (fst (loop s i)) \<le> v_rest_right s \<longrightarrow> F_right (snd (loop s i)) = 0)
   \<and> (filtered_v_vtc (fst (loop s i)) \<le> v_rest_vtc s \<longrightarrow> F_vtc (snd (loop s i)) = 0)"
  by (simp add: loop_forces forceFromVoltage_def voltageToRawUnit_def)

text \<open>A voltage equal to its baseline with a negative coefficient, and the idle pass.\<close>

theorem force_zero_at_or_below_baseline_witness:
  "(2::real) \<le> 2 \<and> forceFromVoltage 2 2 (- 3) 1000 = 0
   \<and> filtered_v_left (fst (loop (idle_state 0 False) (idle_input 60))) \<le> v_rest_left (idle_state 0 False)
   \<and> F_left (snd (loop (idle_state 0 False) (idle_input 60))) = 0
   \<and> F_right (snd (loop (idle_state 0 False) (idle_input 60))) = 0
   \<and> F_vtc (snd (loop (idle_state 0 False) (idle_input 60))) = 0"
  using force_zero_at_or_below_baseline [of 2 2 "- 3" 1000 "idle_state 0 False" "idle_input 60"]
  by (simp add: idle_filtered idle_rest)


text \<open>
  Claim C4. In every pass \<^verbatim>\<open>isArmRested\<close> is \<open>F_tot > MIN_REST_THRESHOLD_N\<close>, the total
  being the sum of the three forces, and when it is false both CoP coordinates are
  not-a-number.
\<close>

theorem rest_flag_and_undefined_cop:
  "isArmRested (snd (loop s i)) = (F_tot (snd (loop s i)) > MIN_REST_THRESHOLD_N)
   \<and> F_tot (snd (loop s i)) =
       F_left (snd (loop s i)) + F_right (snd (loop s i)) + F_vtc (snd (loop s i))
   \<and> (\<not> isArmRested (snd (loop s i)) \<longrightarrow>
         cop_x (snd (loop s i)) = NaN \<and> cop_y (snd (loop s i)) = NaN)"
  using loop_rested [of s i] loop_total [of s i] loop_not_rested(1,2) [of s i] by blast

text \<open>The idle pass is not rested.\<close>

theorem rest_flag_and_undefined_cop_witness:
  "\<not> isArmRested (snd (loop (idle_state 0 True) (idle_input 60)))
   \<and> \<not> F_tot (snd (loop (idle_state 0 True) (idle_input 60))) > MIN_REST_THRESHOLD_N
   \<and> cop_x (snd (loop (idle_state 0 True) (idle_input 60))) = NaN
   \<and> cop_y (snd (loop (idle_state 0 True) (idle_input 60))) = NaN"
  using rest_flag_and_undefined_cop [of "idle_state 0 True" "idle_input 60"] idle_not_rested [of 0 True 60]
  by simp

text \<open>
  Claim C3. In every pass where the arm is not rested, the persisted dead-zone membership
  is false afterwards, whatever it was before, and \<^verbatim>\<open>copStateChanged\<close> is not raised.
\<close>

theorem losing_rest_resets_deadzone:
  "\<not> isArmRested (snd (loop s i)) \<longrightarrow>
     \<not> was_in_deadzone (fst (loop s i)) \<and> \<not> copStateChanged (snd (loop s i))"
  using loop_not_rested(3,5) [of s i] by blast

text \<open>The idle pass, entered with the membership set.\<close>

theorem losing_rest_resets_deadzone_witness:
  "was_in_deadzone (idle_state 0 True)
   \<and> \<not> isArmRested (snd (loop (idle_state 0 True) (idle_input 60)))
   \<and> \<not> was_in_deadzone (fst (loop (idle_state 0 True) (idle_input 60)))
   \<and> \<not> copStateChanged (snd (loop (idle_state 0 True) (idle_input 60)))"
  using losing_rest_resets_deadzone [of "idle_state 0 True" "idle_input 60"] idle_not_rested [of 0 True 60]
  by (simp add: idle_state_def)

lemma rest_threshold_positive: "0 < MIN_REST_THRESHOLD_N"
  by (simp add: MIN_REST_THRESHOLD_N_def)

lemma fdiv_nonzero: "b \<noteq> 0 \<Longrightarrow> fdiv a b = Finite (a / b)"
  by (simp add: fdiv_def)

text \<open>
  Claim C6. The CoP quotients are taken only in a rested pass, where the divisor \<open>F_tot\<close>
  is above the positive threshold and so strictly positive: both quotients are finite
  numbers. In a pass that is not rested the CoP keeps its initial not-a-number, and in no
  pass is a coordinate the infinity of a division by zero.
\<close>

theorem cop_divisor_positive:
  "(isArmRested (snd (loop s i)) \<longrightarrow>
      0 < MIN_REST_THRESHOLD_N \<and> MIN_REST_THRESHOLD_N < F_tot (snd (loop s i))
      \<and> 0 < F_tot (snd (loop s i))
      \<and> cop_x (snd (loop s i)) =
          Finite ((P_LEFT_XY ! 0 * F_left (snd (loop s i)) + P_RIGHT_XY ! 0 * F_right (snd (loop s i))
                   + P_VTC_XY ! 0 * F_vtc (snd (loop s i))) / F_tot (snd (loop s i)))
      \<and> cop_y (snd (loop s i)) =
          Finite ((P_LEFT_XY ! 1 * F_left (snd (loop s i)) + P_RIGHT_XY ! 1 * F_right (snd (loop s i))
                   + P_VTC_XY ! 1 * F_vtc (snd (loop s i))) / F_tot (snd (loop s i))))
   \<and> (\<not> isArmRested (snd (loop s i)) \<longrightarrow>
        cop_x (snd (loop s i)) = NaN \<and> cop_y (snd (loop s i)) = NaN)
   \<and> cop_x (snd (loop s i)) \<noteq> Infinite \<and> cop_y (snd (loop s i)) \<noteq> Infinite"
proof (cases "isArmRested (snd (loop s i))")
  case True
  then have gt: "MIN_REST_THRESHOLD_N < F_tot (snd (loop s i))"
    by (simp add: loop_rested)
  with rest_threshold_positive have pos: "0 < F_tot (snd (loop s i))"
    by linarith
  then have "F_tot (snd (loop s i)) \<noteq> 0"
    by simp
  with True gt pos rest_threshold_positive show ?thesis
    by (simp add: loop_when_rested(1,2) fdiv_nonzero)
next
  case False
  then show ?thesis
    by (simp add: loop_not_rested(1,2))
qed

text \<open>The loaded pass is rested, the idle pass is not.\<close>

theorem cop_divisor_positive_witness:
  "isArmRested (snd (loop (loaded_state 0 False) (full_scale_input 60)))
   \<and> 0 < F_tot (snd (loop (loaded_state 0 False) (full_scale_input 60)))
   \<and> cop_x (snd (loop (loaded_state 0 False) (full_scale_input 60))) = Finite (36547 / 10928)
   \<and> cop_y (snd (loop (loaded_state 0 False) (full_scale_input 60))) = Finite (16445 / 2732)
   \<and> \<not> isArmRested (snd (loop (idle_state 0 False) (idle_input 60)))
   \<and> cop_x (snd (loop (idle_state 0 False) (idle_input 60))) = NaN
   \<and> cop_y (snd (loop (idle_state 0 False) (idle_input 60))) = NaN"
  using cop_divisor_positive [of "loaded_state 0 False" "full_scale_input 60"]
    cop_divisor_positive [of "idle_state 0 False" "idle_input 60"]
    loaded_rested [of 0 False 60] idle_not_rested [of 0 False 60]
  by (simp add: loop_total loaded_forces P_LEFT_XY_def P_RIGHT_XY_def P_VTC_XY_def)


subsection \<open>Dead-zone membership over a run\<close>

lemma nth_run_loop_Suc:
  "snd (run_loop s (i # inputs)) ! Suc k = snd (run_loop (fst (loop s i)) inputs) ! k"
  by simp

lemma deadzone_change_in_run:
  assumes "\<forall>r \<in> set (snd (run_loop s inputs)). isArmRested r" and "k < length inputs"
  shows "copStateChanged (snd (run_loop s inputs) ! k) =
     (now_in_deadzone (snd (run_loop s inputs) ! k) \<noteq>
        (if k = 0 then was_in_deadzone s else now_in_deadzone (snd (run_loop s inputs) ! (k - 1))))"
  using assms
proof (induction inputs arbitrary: s k)
  case Nil
  then show ?case by simp
next
  case (Cons i inputs)
  have rested: "isArmRested (snd (loop s i))"
    using Cons.prems(1) by simp
  have rest: "\<forall>r \<in> set (snd (run_loop (fst (loop s i)) inputs)). isArmRested r"
    using Cons.prems(1) by simp
  show ?case
  proof (cases k)
    case 0
    then show ?thesis
      using loop_when_rested(4) [OF rested] by simp
  next
    case (Suc j)
    then have j: "j < length inputs"
      using Cons.prems(2) by simp
    have ih: "copStateChanged (snd (run_loop (fst (loop s i)) inputs) ! j) =
       (now_in_deadzone (snd (run_loop (fst (loop s i)) inputs) ! j) \<noteq>
          (if j = 0 then was_in_deadzone (fst (loop s i))
           else now_in_deadzone (snd (run_loop (fst (loop s i)) inputs) ! (j - 1))))"
      by (rule Cons.IH [OF rest j])
    show ?thesis
    proof (cases j)
      case 0
      with ih Suc show ?thesis
        using loop_when_rested(5) [OF rested] by simp
    next
      case (Suc j')
      with ih \<open>k = Suc j\<close> show ?thesis
        by simp
    qed
  qed
qed

text \<open>
  Claim C2. In a run of passes that are all rested, \<^verbatim>\<open>copStateChanged\<close> of a pass is true
  exactly when the membership computed in that pass differs from the membership persisted
  by the pass before it (for the first pass, from the membership the run starts with), and
  each pass persists the membership it computed. So a change of the membership to true
  raises the flag on the pass of the change only, and every pass that repeats the
  membership of its predecessor leaves it false.
\<close>

theorem deadzone_change_signal:
  "(\<forall>r \<in> set (snd (run_loop s inputs)). isArmRested r) \<longrightarrow>
   (\<forall>k < length inputs.
      copStateChanged (snd (run_loop s inputs) ! k) =
        (now_in_deadzone (snd (run_loop s inputs) ! k) \<noteq>
           (if k = 0 then was_in_deadzone s
            else now_in_deadzone (snd (run_loop s inputs) ! (k - 1)))))
   \<and> was_in_deadzone (fst (run_loop s inputs)) =
        (if inputs = [] then was_in_deadzone s
         else now_in_deadzone (last (snd (run_loop s inputs))))"
proof (intro impI conjI allI)
  assume rested: "\<forall>r \<in> set (snd (run_loop s inputs)). isArmRested r"
  show "k < length inputs \<Longrightarrow> copStateChanged (snd (run_loop s inputs) ! k) =
        (now_in_deadzone (snd (run_loop s inputs) ! k) \<noteq>
           (if k = 0 then was_in_deadzone s
            else now_in_deadzone (snd (run_loop s inputs) ! (k - 1))))" for k
    by (rule deadzone_change_in_run [OF rested])
  show "was_in_deadzone (fst (run_loop s inputs)) =
        (if inputs = [] then was_in_deadzone s
         else now_in_deadzone (last (snd (run_loop s inputs))))"
    using rested
  proof (induction inputs arbitrary: s)
    case Nil
    then show ?case by simp
  next
    case (Cons i inputs)
    have r1: "isArmRested (snd (loop s i))"
      using Cons.prems by simp
    have r2: "\<forall>r \<in> set (snd (run_loop (fst (loop s i)) inputs)). isArmRested r"
      using Cons.prems by simp
    show ?case
      using Cons.IH [OF r2] loop_when_rested(5) [OF r1] length_run_loop [of "fst (loop s i)" inputs]
      by (cases inputs) auto
  qed
qed

lemma loaded_run3:
  "snd (run_loop (loaded_state 0 dz) [full_scale_input 10, full_scale_input 20, full_scale_input 30])
   = [snd (loop (loaded_state 0 dz) (full_scale_input 10)),
      snd (loop (loaded_state 0 True) (full_scale_input 20)),
      snd (loop (loaded_state 0 True) (full_scale_input 30))]"
  by (simp add: loaded_state_after)

text \<open>Three loaded passes entered outside the dead zone: the flag is raised on the first only.\<close>

theorem deadzone_change_signal_witness:
  "\<not> was_in_deadzone (loaded_state 0 False)
   \<and> map isArmRested (snd (run_loop (loaded_state 0 False)
        [full_scale_input 10, full_scale_input 20, full_scale_input 30])) = [True, True, True]
   \<and> map now_in_deadzone (snd (run_loop (loaded_state 0 False)
        [full_scale_input 10, full_scale_input 20, full_scale_input 30])) = [True, True, True]
   \<and> map copStateChanged (snd (run_loop (loaded_state 0 False)
        [full_scale_input 10, full_scale_input 20, full_scale_input 30])) = [True, False, False]"
proof -
  let ?inputs = "[full_scale_input 10, full_scale_input 20, full_scale_input 30]"
  let ?rs = "snd (run_loop (loaded_state 0 False) ?inputs)"
  have rested: "\<forall>r \<in> set ?rs. isArmRested r"
    unfolding loaded_run3 by (simp add: loaded_rested)
  have dz: "was_in_deadzone (loaded_state 0 False) = False"
    by (simp add: loaded_state_def)
  have "\<forall>k < length ?inputs. copStateChanged (?rs ! k) =
        (now_in_deadzone (?rs ! k) \<noteq>
           (if k = 0 then was_in_deadzone (loaded_state 0 False)
            else now_in_deadzone (?rs ! (k - 1))))"
    using deadzone_change_signal [of "loaded_state 0 False" ?inputs] rested by blast
  from this [rule_format, of 0] this [rule_format, of 1] this [rule_format, of 2]
  show ?thesis
    unfolding loaded_run3 dz by (simp add: loaded_rested loaded_in_deadzone)
qed

subsection \<open>The filter\<close>

lemma filter_constant_run:
  "(\<forall>i \<in> set inputs. adc_volts (adc_left i) = filtered_v_left s)
     \<Longrightarrow> filtered_v_left (fst (run_loop s inputs)) = filtered_v_left s"
  "(\<forall>i \<in> set inputs. adc_volts (adc_right i) = filtered_v_right s)
     \<Longrightarrow> filtered_v_right (fst (run_loop s inputs)) = filtered_v_right s"
  "(\<forall>i \<in> set inputs. adc_volts (adc_vtc i) = filtered_v_vtc s)
     \<Longrightarrow> filtered_v_vtc (fst (run_loop s inputs)) = filtered_v_vtc s"
  by (induction inputs arbitrary: s) (simp_all add: loop_filtered ema_fixed)

lemma filter_constant_prefix:
  "(\<forall>i \<in> set inputs. adc_volts (adc_left i) = filtered_v_left s)
     \<Longrightarrow> filtered_v_left (fst (run_loop s (take n inputs))) = filtered_v_left s"
  "(\<forall>i \<in> set inputs. adc_volts (adc_right i) = filtered_v_right s)
     \<Longrightarrow> filtered_v_right (fst (run_loop s (take n inputs))) = filtered_v_right s"
  "(\<forall>i \<in> set inputs. adc_volts (adc_vtc i) = filtered_v_vtc s)
     \<Longrightarrow> filtered_v_vtc (fst (run_loop s (take n inputs))) = filtered_v_vtc s"
  using filter_constant_run [of "take n inputs" s] by (meson in_set_takeD)+

text \<open>
  Claim C8. The filter update is \<open>\<alpha> * sample + (1 - \<alpha>) * previous\<close> and every value is
  a fixed point of it: over a run in which every raw sample of a channel equals the
  filtered voltage the run starts with, the filtered voltage of that channel is still
  that value after every number of passes.
\<close>

theorem ema_constant_input_fixed_point:
  "ema_update x x = x
   \<and> ema_update v_raw filtered_v = EMA_ALPHA * v_raw + (1 - EMA_ALPHA) * filtered_v
   \<and> ((\<forall>i \<in> set inputs. adc_volts (adc_left i) = filtered_v_left s) \<longrightarrow>
        (\<forall>n. filtered_v_left (fst (run_loop s (take n inputs))) = filtered_v_left s))
   \<and> ((\<forall>i \<in> set inputs. adc_volts (adc_right i) = filtered_v_right s) \<longrightarrow>
        (\<forall>n. filtered_v_right (fst (run_loop s (take n inputs))) = filtered_v_right s))
   \<and> ((\<forall>i \<in> set inputs. adc_volts (adc_vtc i) = filtered_v_vtc s) \<longrightarrow>
        (\<forall>n. filtered_v_vtc (fst (run_loop s (take n inputs))) = filtered_v_vtc s))"
  using filter_constant_prefix [of inputs s]
  by (simp add: ema_fixed) (simp add: ema_update_def)

text \<open>The loaded run: the ADC at full scale is 3.3 V, the value the filter holds.\<close>

theorem ema_constant_input_fixed_point_witness:
  "adc_volts 4095 = filtered_v_left (loaded_state 0 False)
   \<and> filtered_v_left (fst (run_loop (loaded_state 0 False)
        [full_scale_input 10, full_scale_input 20, full_scale_input 30])) = 3.3
   \<and> filtered_v_left (fst (run_loop (loaded_state 0 False) [full_scale_input 10])) = 3.3"
proof -
  let ?inputs = "[full_scale_input 10, full_scale_input 20, full_scale_input 30]"
  have v: "adc_volts 4095 = filtered_v_left (loaded_state 0 False)"
    by (simp add: adc_full_scale loaded_state_def)
  then have hyp: "\<forall>i \<in> set ?inputs. adc_volts (adc_left i) = filtered_v_left (loaded_state 0 False)"
    by (simp add: full_scale_input_def)
  have "\<forall>n. filtered_v_left (fst (run_loop (loaded_state 0 False) (take n ?inputs)))
          = filtered_v_left (loaded_state 0 False)"
    using ema_constant_input_fixed_point [of _ _ _ ?inputs "loaded_state 0 False"] hyp by blast
  from this [rule_format, of 3] this [rule_format, of 1] v show ?thesis
    by (simp add: loaded_state_def)
qed

subsection \<open>The polynomial below its first root\<close>

lemma P3_negative: "P3 < 0"
  by (simp add: P3_def)

lemma quadratic_negative:
  fixes v :: real
  assumes "v < 1.66"
  shows "P1 * v * v + P2 * v + P3 < 0"
proof -
  have split: "P1 * v * v + P2 * v + P3 =
      (v - 1.66) * (P1 * (v + 1.66) + P2) + (P1 * 1.66 * 1.66 + P2 * 1.66 + P3)"
    by (simp add: field_simps)
  have at: "P1 * 1.66 * 1.66 + P2 * 1.66 + P3 < 0"
    by (simp add: P1_def P2_def P3_def)
  have slope: "0 < P1 * (v + 1.66) + P2"
    using assms by (simp add: P1_def P2_def)
  have "(v - 1.66) * (P1 * (v + 1.66) + P2) < 0"
    using assms slope by (simp add: mult_neg_pos)
  with split at show ?thesis by linarith
qed

lemma force_zero_below_root:
  assumes "v < 1.66"
  shows "forceFromVoltage v restBaseline c g = 0"
  using quadratic_negative [OF assms]
  by (simp add: forceFromVoltage_def voltageToRawUnit_def Let_def)


text \<open>
  Claim C9. \<open>P3\<close> is negative and the polynomial is negative at every voltage below
  1.66 V, so for every rest baseline below 1.66 V there is a voltage strictly above the
  baseline whose force is exactly 0, whatever the coefficients; and there is a pass of
  \<^verbatim>\<open>loop()\<close> that leaves the left channel strictly above its baseline with a left force of 0.
\<close>

theorem zero_force_above_baseline:
  "P3 < 0
   \<and> (\<forall>v. v < 1.66 \<longrightarrow> P1 * v * v + P2 * v + P3 < 0)
   \<and> (\<forall>restBaseline c g. restBaseline < 1.66 \<longrightarrow>
         (\<exists>v. restBaseline < v \<and> forceFromVoltage v restBaseline c g = 0))
   \<and> (\<exists>s i. v_rest_left s < filtered_v_left (fst (loop s i)) \<and> F_left (snd (loop s i)) = 0)"
proof (intro conjI allI impI)
  show "P3 < 0" by (rule P3_negative)
  show "v < 1.66 \<Longrightarrow> P1 * v * v + P2 * v + P3 < 0" for v :: real
    by (rule quadratic_negative)
  show "\<exists>v. restBaseline < v \<and> forceFromVoltage v restBaseline c g = 0"
    if "restBaseline < 1.66" for restBaseline c g :: real
  proof (intro exI conjI)
    show "restBaseline < (restBaseline + 1.66) / 2"
      using that by simp
    show "forceFromVoltage ((restBaseline + 1.66) / 2) restBaseline c g = 0"
      using that by (intro force_zero_below_root) simp
  qed
  show "\<exists>s i. v_rest_left s < filtered_v_left (fst (loop s i)) \<and> F_left (snd (loop s i)) = 0"
  proof (intro exI conjI)
    let ?s = "(idle_state 0 False)\<lparr> v_rest_left := 1 \<rparr>"
    have f: "filtered_v_left (fst (loop ?s (idle_input 0))) = 1.4025"
      by (simp add: loop_filtered idle_state_def idle_input_def adc_zero ema_update_def EMA_ALPHA_def)
    show "v_rest_left ?s < filtered_v_left (fst (loop ?s (idle_input 0)))"
      by (simp add: f)
    show "F_left (snd (loop ?s (idle_input 0))) = 0"
      by (simp add: loop_forces f force_zero_below_root)
  qed
qed

text \<open>The polynomial at 1.5 V, and a baseline of 1 V.\<close>

theorem zero_force_above_baseline_witness:
  "(1.5::real) < 1.66 \<and> P1 * 1.5 * 1.5 + P2 * 1.5 + P3 < 0
   \<and> (\<exists>v. 1 < v \<and> forceFromVoltage v 1 C_REL_LEFT SYSTEM_FORCE_SCALE = 0)"
proof -
  have a: "(1.5::real) < 1.66" and b: "(1::real) < 1.66"
    by simp_all
  from zero_force_above_baseline a b show ?thesis
    by blast
qed

subsection \<open>The centre of pressure\<close>

lemma cop_convex:
  assumes "isArmRested (snd (loop s i))"
  defines "r \<equiv> snd (loop s i)"
  shows "0 < F_tot r"
    and "cop_x r = Finite (F_left r / F_tot r * P_LEFT_XY ! 0 + F_right r / F_tot r * P_RIGHT_XY ! 0
                            + F_vtc r / F_tot r * P_VTC_XY ! 0)"
    and "cop_y r = Finite (F_left r / F_tot r * P_LEFT_XY ! 1 + F_right r / F_tot r * P_RIGHT_XY ! 1
                            + F_vtc r / F_tot r * P_VTC_XY ! 1)"
    and "F_left r / F_tot r + F_right r / F_tot r + F_vtc r / F_tot r = 1"
proof -
  have gt: "MIN_REST_THRESHOLD_N < F_tot r"
    using assms(1) by (simp add: loop_rested r_def)
  with rest_threshold_positive show pos: "0 < F_tot r"
    by linarith
  then have nz: "F_tot r \<noteq> 0"
    by simp
  show "cop_x r = Finite (F_left r / F_tot r * P_LEFT_XY ! 0 + F_right r / F_tot r * P_RIGHT_XY ! 0
                            + F_vtc r / F_tot r * P_VTC_XY ! 0)"
    using assms(1) nz unfolding r_def
    by (simp add: loop_when_rested(1) fdiv_nonzero add_divide_distrib mult.commute)
  show "cop_y r = Finite (F_left r / F_tot r * P_LEFT_XY ! 1 + F_right r / F_tot r * P_RIGHT_XY ! 1
                            + F_vtc r / F_tot r * P_VTC_XY ! 1)"
    using assms(1) nz unfolding r_def
    by (simp add: loop_when_rested(2) fdiv_nonzero add_divide_distrib mult.commute)
  have "F_left r / F_tot r + F_right r / F_tot r + F_vtc r / F_tot r
          = (F_left r + F_right r + F_vtc r) / F_tot r"
    by (simp add: add_divide_distrib)
  also have "\<dots> = 1"
    using nz by (simp add: r_def loop_total [symmetric])
  finally show "F_left r / F_tot r + F_right r / F_tot r + F_vtc r / F_tot r = 1" .
qed


lemma convex_bounds:
  fixes wl wr wv :: real
  assumes "0 \<le> wl" "0 \<le> wr" "0 \<le> wv" "wl + wr + wv = 1"
  shows "0 \<le> wl * 0 + wr * 7 + wv * 3.5" "wl * 0 + wr * 7 + wv * 3.5 \<le> 7"
    "0 \<le> wl * 0 + wr * 0 + wv * 22" "wl * 0 + wr * 0 + wv * 22 \<le> 22"
  using assms by simp_all

text \<open>
  The CoP in exact arithmetic (the statement of claim C10 read over the reals). In a
  rested pass the CoP is the combination of the three sensor positions \<open>(0, 0)\<close>,
  \<open>(7, 0)\<close> and \<open>(3.5, 22)\<close> with the weights \<open>F_i / F_tot\<close>, which are not negative and
  add up to 1; so it lies in the triangle of the three positions, and \<open>0 \<le> cop_x \<le> 7\<close>
  and \<open>0 \<le> cop_y \<le> 22\<close>. The sketch computes the quotient in binary32, whose rounding
  is not part of this model.
\<close>

theorem cop_inside_sensor_triangle:
  "isArmRested (snd (loop s i)) \<longrightarrow>
     0 \<le> F_left (snd (loop s i)) / F_tot (snd (loop s i))
   \<and> 0 \<le> F_right (snd (loop s i)) / F_tot (snd (loop s i))
   \<and> 0 \<le> F_vtc (snd (loop s i)) / F_tot (snd (loop s i))
   \<and> F_left (snd (loop s i)) / F_tot (snd (loop s i))
       + F_right (snd (loop s i)) / F_tot (snd (loop s i))
       + F_vtc (snd (loop s i)) / F_tot (snd (loop s i)) = 1
   \<and> cop_x (snd (loop s i)) =
       Finite (F_left (snd (loop s i)) / F_tot (snd (loop s i)) * P_LEFT_XY ! 0
               + F_right (snd (loop s i)) / F_tot (snd (loop s i)) * P_RIGHT_XY ! 0
               + F_vtc (snd (loop s i)) / F_tot (snd (loop s i)) * P_VTC_XY ! 0)
   \<and> cop_y (snd (loop s i)) =
       Finite (F_left (snd (loop s i)) / F_tot (snd (loop s i)) * P_LEFT_XY ! 1
               + F_right (snd (loop s i)) / F_tot (snd (loop s i)) * P_RIGHT_XY ! 1
               + F_vtc (snd (loop s i)) / F_tot (snd (loop s i)) * P_VTC_XY ! 1)
   \<and> P_LEFT_XY = [0, 0] \<and> P_RIGHT_XY = [7, 0] \<and> P_VTC_XY = [3.5, 22]
   \<and> (\<exists>x y. cop_x (snd (loop s i)) = Finite x \<and> cop_y (snd (loop s i)) = Finite y
         \<and> 0 \<le> x \<and> x \<le> 7 \<and> 0 \<le> y \<and> y \<le> 22)"
proof
  assume rested: "isArmRested (snd (loop s i))"
  let ?r = "snd (loop s i)"
  let ?wl = "F_left ?r / F_tot ?r" and ?wr = "F_right ?r / F_tot ?r" and ?wv = "F_vtc ?r / F_tot ?r"
  note c = cop_convex [OF rested]
  have w: "0 \<le> ?wl" "0 \<le> ?wr" "0 \<le> ?wv"
    using c(1) loop_forces_nonneg [of s i] by simp_all
  note b = convex_bounds [OF w c(4)]
  have p: "P_LEFT_XY = [0, 0]" "P_RIGHT_XY = [7, 0]" "P_VTC_XY = [3.5, 22]"
    by (simp_all add: P_LEFT_XY_def P_RIGHT_XY_def P_VTC_XY_def)
  have box: "\<exists>x y. cop_x ?r = Finite x \<and> cop_y ?r = Finite y
         \<and> 0 \<le> x \<and> x \<le> 7 \<and> 0 \<le> y \<and> y \<le> 22"
    using c(2,3) b by (simp add: p)
  from w c(2,3,4) p box
  show "0 \<le> ?wl \<and> 0 \<le> ?wr \<and> 0 \<le> ?wv \<and> ?wl + ?wr + ?wv = 1
   \<and> cop_x ?r = Finite (?wl * P_LEFT_XY ! 0 + ?wr * P_RIGHT_XY ! 0 + ?wv * P_VTC_XY ! 0)
   \<and> cop_y ?r = Finite (?wl * P_LEFT_XY ! 1 + ?wr * P_RIGHT_XY ! 1 + ?wv * P_VTC_XY ! 1)
   \<and> P_LEFT_XY = [0, 0] \<and> P_RIGHT_XY = [7, 0] \<and> P_VTC_XY = [3.5, 22]
   \<and> (\<exists>x y. cop_x ?r = Finite x \<and> cop_y ?r = Finite y
         \<and> 0 \<le> x \<and> x \<le> 7 \<and> 0 \<le> y \<and> y \<le> 22)"
    by blast
qed

text \<open>The loaded pass: the CoP is about (3.34, 6.02).\<close>

theorem cop_inside_sensor_triangle_witness:
  "isArmRested (snd (loop (loaded_state 0 False) (full_scale_input 60)))
   \<and> cop_x (snd (loop (loaded_state 0 False) (full_scale_input 60))) = Finite (36547 / 10928)
   \<and> cop_y (snd (loop (loaded_state 0 False) (full_scale_input 60))) = Finite (16445 / 2732)"
  using cop_inside_sensor_triangle [of "loaded_state 0 False" "full_scale_input 60"]
    loaded_rested [of 0 False 60]
  by (simp add: loop_total loaded_forces P_LEFT_XY_def P_RIGHT_XY_def P_VTC_XY_def)


subsection \<open>The telemetry gate\<close>

lemma emissions_Cons:
  "emissions (r # rs) = (if emitted r \<noteq> None then Suc (emissions rs) else emissions rs)"
  by (simp add: emissions_def)




















end
